theory Spec2Isabelle
  imports Complex_Main "HOL-Library.FSet"
begin

section \<open>Numbers\<close>

text \<open>
  The module computes on float tensors. Tensor entries handed in by the caller are
  finite numbers and are modelled as \<^typ>\<open>real\<close>. A division can leave the finite
  numbers (the source never guards a denominator), and so can the mean of an empty
  slice, so computed values live in \<open>fval\<close>: a finite number, one of the two infinities,
  or NaN. The operations on \<open>fval\<close> follow IEEE 754 on these four kinds of value.

  The embedding of the IoU functions, the index mapping, the loss terms and the
  aggregator computes with exact arithmetic on the finite numbers: the claims about them
  are about which operations run, on which rows, and where a denominator is zero. Where
  rounding decides a claim (the round trip of the converters, the comparison of the
  generalized IoU with the IoU) the same source lines are embedded with every operation
  rounded to float32, in the section on float32 below. Signed zeros are not modelled.
\<close>

datatype fval = Fin real | PInf | NInf | NaN

text \<open>\<open>a / b\<close> on two finite numbers.\<close>

definition fdiv :: "real \<Rightarrow> real \<Rightarrow> fval" where
  "fdiv a b =
     (if b \<noteq> 0 then Fin (a / b)
      else if a = 0 then NaN
      else if 0 < a then PInf else NInf)"

fun fneg :: "fval \<Rightarrow> fval" where
  "fneg (Fin a) = Fin (- a)"
| "fneg PInf = NInf"
| "fneg NInf = PInf"
| "fneg NaN = NaN"

fun fadd :: "fval \<Rightarrow> fval \<Rightarrow> fval" where
  "fadd NaN _ = NaN"
| "fadd _ NaN = NaN"
| "fadd (Fin a) (Fin b) = Fin (a + b)"
| "fadd PInf NInf = NaN"
| "fadd NInf PInf = NaN"
| "fadd PInf _ = PInf"
| "fadd _ PInf = PInf"
| "fadd NInf _ = NInf"
| "fadd _ NInf = NInf"

definition fsub :: "fval \<Rightarrow> fval \<Rightarrow> fval" where
  "fsub x y = fadd x (fneg y)"

definition fsign :: "real \<Rightarrow> fval \<Rightarrow> fval" where
  \<comment> \<open>an infinity times a finite number\<close>
  "fsign a y = (if a = 0 then NaN else if 0 < a then y else fneg y)"

fun fmul :: "fval \<Rightarrow> fval \<Rightarrow> fval" where
  "fmul NaN _ = NaN"
| "fmul _ NaN = NaN"
| "fmul (Fin a) (Fin b) = Fin (a * b)"
| "fmul (Fin a) y = fsign a y"
| "fmul x (Fin b) = fsign b x"
| "fmul PInf y = y"
| "fmul NInf y = fneg y"

fun fabs :: "fval \<Rightarrow> fval" where
  "fabs (Fin a) = Fin \<bar>a\<bar>"
| "fabs PInf = PInf"
| "fabs NInf = PInf"
| "fabs NaN = NaN"

text \<open>Comparison \<open>x <= y\<close>: false as soon as one side is NaN.\<close>

fun fle :: "fval \<Rightarrow> fval \<Rightarrow> bool" where
  "fle NaN _ = False"
| "fle _ NaN = False"
| "fle (Fin a) (Fin b) = (a \<le> b)"
| "fle NInf _ = True"
| "fle _ PInf = True"
| "fle PInf _ = False"
| "fle _ NInf = False"

text \<open>\<open>t.mean()\<close> of a one-dimensional tensor: NaN when the tensor is empty.\<close>

definition fmean :: "real list \<Rightarrow> fval" where
  "fmean xs = (if xs = [] then NaN else Fin (sum_list xs / real (length xs)))"

section \<open>Spans and errors\<close>

text \<open>A span is a row \<open>[st, ed]\<close>; a batch is a list of rows.\<close>

type_synonym span = "real \<times> real"

datatype py_error =
    AssertionError | IndexError | ValueError | RuntimeError | AttributeError | UnboundLocalError

section \<open>Temporal IoU and generalized IoU\<close>

text \<open>
  \<open>outer f xs ys\<close> is the broadcast of \<open>xs[:, None]\<close> against \<open>ys\<close>: the
  \<open>(N, M)\<close> matrix of \<open>f x y\<close>. \<open>mat2 f a b\<close> is an elementwise operation on two
  matrices of one shape.
\<close>

definition outer :: "('a \<Rightarrow> 'b \<Rightarrow> 'c) \<Rightarrow> 'a list \<Rightarrow> 'b list \<Rightarrow> 'c list list" where
  "outer f xs ys = map (\<lambda>x. map (f x) ys) xs"

definition mat2 :: "('a \<Rightarrow> 'b \<Rightarrow> 'c) \<Rightarrow> 'a list list \<Rightarrow> 'b list list \<Rightarrow> 'c list list" where
  "mat2 f a b = map2 (map2 f) a b"

definition clamp_min0 :: "real \<Rightarrow> real" where
  \<comment> \<open>\<open>x.clamp(min=0)\<close>\<close>
  "clamp_min0 x = max x 0"

text \<open>The local \<open>inter\<close> of \<open>temporal_iou\<close>, from \<open>left\<close> and \<open>right\<close>; the function does
  not return it, and a statement about the intersection is a statement about this matrix.\<close>

definition iou_inter :: "span list \<Rightarrow> span list \<Rightarrow> real list list" where
  "iou_inter spans1 spans2 =
     (let left = outer max (map fst spans1) (map fst spans2);
          right = outer min (map snd spans1) (map snd spans2)
      in map (map clamp_min0) (mat2 (-) right left))"

definition temporal_iou :: "span list \<Rightarrow> span list \<Rightarrow> fval list list \<times> real list list" where
  "temporal_iou spans1 spans2 =
     (let areas1 = map (\<lambda>s. snd s - fst s) spans1;
          areas2 = map (\<lambda>s. snd s - fst s) spans2;
          inter = iou_inter spans1 spans2;
          union = mat2 (-) (outer (+) areas1 areas2) inter;
          iou = mat2 fdiv inter union
      in (iou, union))"

definition all_ge :: "span list \<Rightarrow> bool" where
  \<comment> \<open>\<open>(spans[:, 1] >= spans[:, 0]).all()\<close>\<close>
  "all_ge spans = list_all (\<lambda>s. snd s \<ge> fst s) spans"

text \<open>The two asserts of \<open>generalized_temporal_iou\<close> and, after them, its matrix with
  exact arithmetic. What is stated on this definition is when the function fails; the
  entries as float32 computes them are those of \<open>generalized_temporal_iou_f32\<close> below.\<close>

definition generalized_temporal_iou ::
  "span list \<Rightarrow> span list \<Rightarrow> py_error + fval list list" where
  "generalized_temporal_iou spans1 spans2 =
     (if \<not> all_ge spans1 then Inl AssertionError
      else if \<not> all_ge spans2 then Inl AssertionError
      else
        let (iou, union) = temporal_iou spans1 spans2;
            left = outer min (map fst spans1) (map fst spans2);
            right = outer max (map snd spans1) (map snd spans2);
            enclosing_area = map (map clamp_min0) (mat2 (-) right left)
        in Inr (mat2 fsub iou (mat2 fdiv (mat2 (-) enclosing_area union) enclosing_area)))"

section \<open>Python sequences, tensors and errors\<close>

text \<open>
  A raise of the source is a value \<open>Inl e\<close>; \<open>ebind\<close> runs the rest of the code
  on a result and passes an error on, \<open>emap\<close> is a loop that stops at the first error.
\<close>

definition ebind :: "py_error + 'a \<Rightarrow> ('a \<Rightarrow> py_error + 'b) \<Rightarrow> py_error + 'b" where
  "ebind m f = (case m of Inl e \<Rightarrow> Inl e | Inr x \<Rightarrow> f x)"

fun emap :: "('a \<Rightarrow> py_error + 'b) \<Rightarrow> 'a list \<Rightarrow> py_error + 'b list" where
  "emap f [] = Inr []"
| "emap f (x # xs) = ebind (f x) (\<lambda>y. ebind (emap f xs) (\<lambda>ys. Inr (y # ys)))"

text \<open>\<open>xs[i]\<close> on a list or a tensor dimension of length \<open>n\<close>: a negative index counts
  from the end, an index out of range raises.\<close>

definition py_index :: "nat \<Rightarrow> int \<Rightarrow> py_error + nat" where
  "py_index n i =
     (if 0 \<le> i \<and> i < int n then Inr (nat i)
      else if - int n \<le> i \<and> i < 0 then Inr (nat (i + int n))
      else Inl IndexError)"

definition getitem :: "'a list \<Rightarrow> int \<Rightarrow> py_error + 'a" where
  "getitem xs i = ebind (py_index (length xs) i) (\<lambda>k. Inr (xs ! k))"

text \<open>The positions a slice \<open>[a:b]\<close> selects in a dimension of length \<open>n\<close>: a negative
  bound counts from the end, both bounds are cut to \<open>0..n\<close>, and the slice is empty when
  the upper bound is not above the lower one.\<close>

definition slice_bound :: "nat \<Rightarrow> int \<Rightarrow> nat" where
  "slice_bound n i = (if i < 0 then nat (max (i + int n) 0) else min (nat i) n)"

definition slice_range :: "nat \<Rightarrow> int \<Rightarrow> int \<Rightarrow> nat list" where
  "slice_range n a b = [slice_bound n a ..< slice_bound n b]"

text \<open>
  A two-dimensional tensor \<open>(B, L)\<close> of frame-to-query similarities and a
  three-dimensional tensor \<open>(B, L, L')\<close> of frame-to-frame similarities: the shape and the
  entry at each position.
\<close>

record tensor2 =
  shape0 :: nat
  shape1 :: nat
  at2 :: "nat \<Rightarrow> nat \<Rightarrow> real"

record tensor3 =
  dim0 :: nat
  dim1 :: nat
  dim2 :: nat
  at3 :: "nat \<Rightarrow> nat \<Rightarrow> nat \<Rightarrow> real"

datatype tensor = T2 tensor2 | T3 tensor3

text \<open>The similarity payload of \<open>new_loss\<close> is a tuple of tensors; after the first lines
  of \<open>new_loss\<close> the variable \<open>sims\<close> holds either one tensor of it or still the tuple.\<close>

datatype sims_val = Tup "tensor list" | Ten tensor

fun tshape0 :: "tensor \<Rightarrow> nat" where
  "tshape0 (T2 t) = shape0 t"
| "tshape0 (T3 t) = dim0 t"

fun tshape1 :: "tensor \<Rightarrow> nat" where
  "tshape1 (T2 t) = shape1 t"
| "tshape1 (T3 t) = dim1 t"

text \<open>\<open>bsz, vid_len = logits.shape\<close> and \<open>bsz, vid_len, _ = v2v_sims.shape\<close>: a tuple has
  no shape, and a tensor of the other rank does not unpack.\<close>

fun as_logits :: "sims_val \<Rightarrow> py_error + tensor2" where
  "as_logits (Tup _) = Inl AttributeError"
| "as_logits (Ten (T2 t)) = Inr t"
| "as_logits (Ten (T3 _)) = Inl ValueError"

fun as_v2v :: "tensor \<Rightarrow> py_error + tensor3" where
  "as_v2v (T3 t) = Inr t"
| "as_v2v (T2 _) = Inl ValueError"

text \<open>\<open>torch.stack\<close> of a Python list of scalars raises on the empty list.\<close>

definition stack :: "'a list \<Rightarrow> py_error + 'a list" where
  "stack xs = (if xs = [] then Inl RuntimeError else Inr xs)"

text \<open>Elementwise \<open>f\<close> on two one-dimensional tensors, with broadcasting of a tensor of
  length one; other lengths that differ raise.\<close>

definition broadcast :: "('a \<Rightarrow> 'b \<Rightarrow> 'c) \<Rightarrow> 'a list \<Rightarrow> 'b list \<Rightarrow> py_error + 'c list" where
  "broadcast f xs ys =
     (if length xs = length ys then Inr (map2 f xs ys)
      else if length xs = 1 then Inr (map (f (hd xs)) ys)
      else if length ys = 1 then Inr (map (\<lambda>x. f x (hd ys)) xs)
      else Inl RuntimeError)"

text \<open>\<open>xs += ys\<close> in place: \<open>ys\<close> may be broadcast, \<open>xs\<close> keeps its shape.\<close>

definition iadd :: "fval list \<Rightarrow> fval list \<Rightarrow> py_error + fval list" where
  "iadd xs ys =
     (if length ys = length xs then Inr (map2 fadd xs ys)
      else if length ys = 1 then Inr (map (\<lambda>x. fadd x (hd ys)) xs)
      else Inl RuntimeError)"

text \<open>\<open>torch.diag\<close> of a matrix with \<open>M\<close> columns: its main diagonal.\<close>

definition diag :: "nat \<Rightarrow> 'a list list \<Rightarrow> 'a list" where
  "diag M m = map (\<lambda>i. m ! i ! i) [0 ..< min (length m) M]"

section \<open>Rounding and clip indices\<close>

text \<open>\<open>torch.round\<close>: to the nearest integer, a tie to the even one. \<open>.int()\<close>: the
  fractional part is dropped.\<close>

definition torch_round :: "real \<Rightarrow> real" where
  "torch_round x =
     (let f = \<lfloor>x\<rfloor>; d = x - of_int f
      in if d < 1/2 then of_int f
         else if 1/2 < d then of_int (f + 1)
         else if even f then of_int f else of_int (f + 1))"

definition to_int :: "real \<Rightarrow> int" where
  "to_int x = (if 0 \<le> x then \<lfloor>x\<rfloor> else \<lceil>x\<rceil>)"

type_synonym ispan = "int \<times> int"

definition int_span :: "span \<Rightarrow> ispan" where
  "int_span s = (to_int (fst s), to_int (snd s))"

text \<open>
  The loop \<open>for b, i in enumerate(idx): groups[i].append(item(b, i))\<close> over the lists
  \<open>[[] for i in range(bsz)]\<close>; computing the item can raise.
\<close>

fun group_loop ::
  "(nat \<Rightarrow> int \<Rightarrow> py_error + 'a) \<Rightarrow> 'a list list \<Rightarrow> nat \<Rightarrow> int list \<Rightarrow> py_error + 'a list list"
where
  "group_loop item g b [] = Inr g"
| "group_loop item g b (i # idx) =
     ebind (py_index (length g) i) (\<lambda>k.
     ebind (item b i) (\<lambda>x.
     group_loop item (g[k := g ! k @ [x]]) (Suc b) idx))"

definition group_by :: "nat \<Rightarrow> int list \<Rightarrow> (nat \<Rightarrow> int \<Rightarrow> py_error + 'a) \<Rightarrow> py_error + 'a list list" where
  "group_by bsz idx item = group_loop item (replicate bsz []) 0 idx"

definition row_int :: "span list \<Rightarrow> nat \<Rightarrow> int \<Rightarrow> py_error + ispan" where
  \<comment> \<open>\<open>spans[b].int()\<close>\<close>
  "row_int spans b i = (if b < length spans then Inr (int_span (spans ! b)) else Inl IndexError)"

text \<open>The clamping of a predicted and of a ground-truth index span in the loss terms.\<close>

definition clamp_src :: "nat \<Rightarrow> ispan \<Rightarrow> ispan" where
  "clamp_src vid_len s =
     (min (max (fst s) 0) (int vid_len - 1), min (snd s) (int vid_len - 1))"

definition clamp_tgt :: "nat \<Rightarrow> ispan \<Rightarrow> ispan" where
  "clamp_tgt vid_len s = (min (fst s) (int vid_len - 1), min (snd s) (int vid_len - 1))"

definition slice_mean :: "tensor2 \<Rightarrow> nat \<Rightarrow> ispan \<Rightarrow> fval" where
  \<comment> \<open>\<open>logits[i][st:end + 1].mean()\<close>\<close>
  "slice_mean logits i s =
     fmean (map (at2 logits i) (slice_range (shape1 logits) (fst s) (snd s + 1)))"

definition block_mean :: "tensor3 \<Rightarrow> nat \<Rightarrow> ispan \<Rightarrow> ispan \<Rightarrow> fval" where
  \<comment> \<open>\<open>v2v_sims[i][st1:end1 + 1, :][:, st2:end2 + 1].flatten().mean()\<close>\<close>
  "block_mean v i s1 s2 =
     fmean (concat (map (\<lambda>r. map (at3 v i r) (slice_range (dim2 v) (fst s2) (snd s2 + 1)))
                        (slice_range (dim1 v) (fst s1) (snd s1 + 1))))"

section \<open>The loss terms of the first snapshot (\<open>loss1\<close>)\<close>

text \<open>
  Each term groups the rows of its span tensors per video with \<open>idx\<close>, walks the videos
  and the spans of each video in order, and pairs the pooled similarities, in that
  order, with the entries of \<open>iou\<close>. The source appends to the predicted and the
  ground-truth groups in one loop; both appends raise the same error, so the two groups
  are built one after the other here. The \<open>print\<close> on a NaN mean has no effect on the
  result and is left out.
\<close>

definition S_Diff_loss1 ::
  "fval list \<Rightarrow> span list \<Rightarrow> span list \<Rightarrow> sims_val \<Rightarrow> int list \<Rightarrow> py_error + fval list" where
  "S_Diff_loss1 iou spans1 spans2 logits idx =
     ebind (as_logits logits) (\<lambda>lg.
     let bsz = shape0 lg; vid_len = shape1 lg in
     ebind (group_by bsz idx (row_int spans1)) (\<lambda>src_spans.
     ebind (group_by bsz idx (row_int spans2)) (\<lambda>tgt_spans.
     let sim_diffs = concat (map (\<lambda>i. map (\<lambda>j.
           let src_sim = slice_mean lg i (clamp_src vid_len (src_spans ! i ! j));
               tgt_sim = slice_mean lg i (clamp_tgt vid_len (tgt_spans ! i ! j))
           in fabs (fsub src_sim tgt_sim)) [0 ..< length (src_spans ! i)]) [0 ..< bsz])
     in ebind (stack sim_diffs) (\<lambda>sim_diffs.
        broadcast fmul (map (fsub (Fin 1)) iou) sim_diffs))))"

definition S_GT_P_loss1 ::
  "fval list \<Rightarrow> span list \<Rightarrow> span list \<Rightarrow> tensor \<Rightarrow> int list \<Rightarrow> py_error + fval list" where
  "S_GT_P_loss1 iou spans1 spans2 v2v_sims idx =
     ebind (as_v2v v2v_sims) (\<lambda>v.
     let bsz = dim0 v; vid_len = dim1 v in
     ebind (group_by bsz idx (row_int spans1)) (\<lambda>src_spans.
     ebind (group_by bsz idx (row_int spans2)) (\<lambda>tgt_spans.
     let i2i_sims = concat (map (\<lambda>i. map (\<lambda>j.
           block_mean v i (clamp_src vid_len (src_spans ! i ! j))
                          (clamp_tgt vid_len (tgt_spans ! i ! j)))
           [0 ..< length (src_spans ! i)]) [0 ..< bsz])
     in ebind (stack i2i_sims) (\<lambda>i2i_sims.
        broadcast fmul (map (fsub (Fin 1)) iou) (map (fsub (Fin 1)) i2i_sims)))))"

definition S_Q_P_loss1 ::
  "fval list \<Rightarrow> span list \<Rightarrow> sims_val \<Rightarrow> int list \<Rightarrow> py_error + fval list" where
  "S_Q_P_loss1 iou spans logits idx =
     ebind (as_logits logits) (\<lambda>lg.
     let bsz = shape0 lg; vid_len = shape1 lg in
     ebind (group_by bsz idx (row_int spans)) (\<lambda>src_spans.
     let t2i_sims = concat (map (\<lambda>i. map (\<lambda>j.
           slice_mean lg i (clamp_src vid_len (src_spans ! i ! j)))
           [0 ..< length (src_spans ! i)]) [0 ..< bsz])
     in ebind (stack t2i_sims) (\<lambda>t2i_sims.
        broadcast fmul (map (fsub (Fin 1)) iou) (map (fsub (Fin 1)) t2i_sims))))"

section \<open>The aggregator of the first snapshot\<close>

text \<open>
  The first lines of \<open>new_loss\<close> rebind \<open>sims\<close> and bind \<open>vid_feat\<close> (left unbound, here
  \<open>None\<close>, when term 2 is off). \<open>rest\<close> is the rest of the function, given the tensor
  whose shape gives the batch size and the clip length.
\<close>

definition bind_sims ::
  "int fset \<Rightarrow> tensor list \<Rightarrow> (sims_val \<Rightarrow> tensor option \<Rightarrow> tensor \<Rightarrow> py_error + 'a)
     \<Rightarrow> py_error + 'a" where
  "bind_sims iou_loss_types sims rest =
     (if 2 |\<notin>| iou_loss_types then
        ebind (getitem sims 0) (\<lambda>t. rest (Ten t) None t)
      else if 1 < fcard iou_loss_types then
        (if length sims = 2 then rest (Ten (sims ! 0)) (Some (sims ! 1)) (sims ! 1)
         else Inl ValueError)
      else ebind (getitem sims 1) (\<lambda>vid_feat. rest (Tup sims) (Some vid_feat) vid_feat))"

definition scale_round :: "nat \<Rightarrow> span list \<Rightarrow> span list" where
  \<comment> \<open>\<open>torch.round(spans * vid_clip_len)\<close>\<close>
  "scale_round vid_clip_len spans =
     map (\<lambda>s. (torch_round (fst s * real vid_clip_len), torch_round (snd s * real vid_clip_len)))
       spans"

definition add_term ::
  "bool \<Rightarrow> py_error + fval list \<Rightarrow> fval list \<Rightarrow> py_error + fval list" where
  \<comment> \<open>\<open>if enabled: new_loss += term\<close>; the term is computed only when enabled\<close>
  "add_term enabled term new_loss =
     (if enabled then ebind term (\<lambda>t. iadd new_loss t) else Inr new_loss)"

definition new_loss_loss1 ::
  "int fset \<Rightarrow> span list \<Rightarrow> span list \<Rightarrow> tensor list \<Rightarrow> int list
     \<Rightarrow> py_error + (fval list \<times> fval list)" where
  "new_loss_loss1 iou_loss_types spans1 spans2 sims idx =
     (let iou = diag (length spans2) (fst (temporal_iou spans1 spans2)) in
      bind_sims iou_loss_types sims (\<lambda>sims vid_feat shaped.
        let vid_clip_len = tshape1 shaped;
            spans1 = scale_round vid_clip_len spans1;
            spans2 = scale_round vid_clip_len spans2
        in if \<not> all_ge spans1 then Inl AssertionError
           else if \<not> all_ge spans2 then Inl AssertionError
           else
             ebind (add_term (1 |\<in>| iou_loss_types)
                      (S_Diff_loss1 iou spans1 spans2 sims idx)
                      (map (fsub (Fin 1)) iou)) (\<lambda>new_loss.
             ebind (add_term (2 |\<in>| iou_loss_types)
                      (case vid_feat of None \<Rightarrow> Inl UnboundLocalError
                       | Some v \<Rightarrow> S_GT_P_loss1 iou spans1 spans2 v idx)
                      new_loss) (\<lambda>new_loss.
             ebind (add_term (3 |\<in>| iou_loss_types)
                      (S_Q_P_loss1 iou spans1 sims idx)
                      new_loss) (\<lambda>new_loss.
             Inr (new_loss, iou))))))"

section \<open>The second snapshot (\<open>loss2\<close>): per-video durations\<close>

definition nth_err :: "'a list \<Rightarrow> nat \<Rightarrow> py_error + 'a" where
  "nth_err xs k = (if k < length xs then Inr (xs ! k) else Inl IndexError)"

definition torch_clamp :: "real \<Rightarrow> real \<Rightarrow> real \<Rightarrow> real" where
  \<comment> \<open>\<open>torch.clamp(x, min=lo, max=hi)\<close>\<close>
  "torch_clamp lo hi x = min (max x lo) hi"

definition clip_len :: "real \<Rightarrow> real" where
  \<comment> \<open>\<open>durations[i] // 2\<close>\<close>
  "clip_len duration = of_int \<lfloor>duration / 2\<rfloor>"

definition clip_span :: "real \<Rightarrow> span \<Rightarrow> ispan" where
  \<comment> \<open>\<open>torch.clamp(torch.round(span * l_clip), min=0, max=l_clip - 1).int().tolist()\<close>\<close>
  "clip_span l_clip s =
     (to_int (torch_clamp 0 (l_clip - 1) (torch_round (fst s * l_clip))),
      to_int (torch_clamp 0 (l_clip - 1) (torch_round (snd s * l_clip))))"

definition clip_row :: "real list \<Rightarrow> span list \<Rightarrow> nat \<Rightarrow> int \<Rightarrow> py_error + ispan" where
  "clip_row durations spans b i =
     ebind (getitem durations i) (\<lambda>d.
       let l_clip = clip_len d in
       ebind (nth_err spans b) (\<lambda>s. Inr (clip_span l_clip s)))"

definition S_Diff_loss2 ::
  "fval list \<Rightarrow> ispan list list \<Rightarrow> ispan list list \<Rightarrow> sims_val \<Rightarrow> py_error + fval list" where
  "S_Diff_loss2 iou src_spans tgt_spans logits =
     ebind (as_logits logits) (\<lambda>lg.
     let bsz = shape0 lg; vid_len = shape1 lg in
     ebind (emap (\<lambda>i.
       ebind (nth_err src_spans i) (\<lambda>src_i.
       emap (\<lambda>j.
         let src_sim = slice_mean lg i (clamp_src vid_len (src_i ! j)) in
         ebind (nth_err tgt_spans i) (\<lambda>tgt_i.
         ebind (nth_err tgt_i j) (\<lambda>t.
         let tgt_sim = slice_mean lg i (clamp_tgt vid_len t)
         in Inr (fabs (fsub src_sim tgt_sim))))) [0 ..< length src_i])) [0 ..< bsz]) (\<lambda>rows.
     ebind (stack (concat rows)) (\<lambda>sim_diffs.
     broadcast fmul (map (fsub (Fin 1)) iou) sim_diffs)))"

definition S_GT_P_loss2 ::
  "fval list \<Rightarrow> ispan list list \<Rightarrow> ispan list list \<Rightarrow> tensor \<Rightarrow> py_error + fval list" where
  "S_GT_P_loss2 iou src_spans tgt_spans v2v_sims =
     ebind (as_v2v v2v_sims) (\<lambda>v.
     let bsz = dim0 v in
     ebind (emap (\<lambda>i.
       ebind (nth_err src_spans i) (\<lambda>src_i.
       emap (\<lambda>j.
         ebind (nth_err tgt_spans i) (\<lambda>tgt_i.
         ebind (nth_err tgt_i j) (\<lambda>t.
         Inr (block_mean v i (src_i ! j) t)))) [0 ..< length src_i])) [0 ..< bsz]) (\<lambda>rows.
     ebind (stack (concat rows)) (\<lambda>i2i_sims.
     broadcast fmul (map (fsub (Fin 1)) iou) (map (fsub (Fin 1)) i2i_sims))))"

definition S_Q_P_loss2 ::
  "fval list \<Rightarrow> ispan list list \<Rightarrow> sims_val \<Rightarrow> py_error + fval list" where
  "S_Q_P_loss2 iou src_spans logits =
     ebind (as_logits logits) (\<lambda>lg.
     let bsz = shape0 lg; vid_len = shape1 lg in
     ebind (emap (\<lambda>i.
       ebind (nth_err src_spans i) (\<lambda>src_i.
       Inr (map (\<lambda>j. slice_mean lg i (clamp_src vid_len (src_i ! j))) [0 ..< length src_i])))
       [0 ..< bsz]) (\<lambda>rows.
     ebind (stack (concat rows)) (\<lambda>t2i_sims.
     broadcast fmul (map (fsub (Fin 1)) iou) (map (fsub (Fin 1)) t2i_sims))))"

record diagnostics =
  src_spans :: "ispan list list"
  tgt_spans :: "ispan list list"
  ious :: "fval list list"
  sim_losses :: "fval list list"

definition new_loss_loss2 ::
  "int fset \<Rightarrow> span list \<Rightarrow> span list \<Rightarrow> tensor list \<Rightarrow> int list \<Rightarrow> real list
     \<Rightarrow> py_error + (fval list \<times> diagnostics)" where
  "new_loss_loss2 iou_loss_types spans1 spans2 sims idx durations =
     (let iou = diag (length spans2) (fst (temporal_iou spans1 spans2)) in
      bind_sims iou_loss_types sims (\<lambda>sims vid_feat shaped.
        let bsz = tshape0 shaped in
        if \<not> all_ge spans1 then Inl AssertionError
        else if \<not> all_ge spans2 then Inl AssertionError
        else
          ebind (group_by bsz idx (clip_row durations spans1)) (\<lambda>src.
          ebind (group_by bsz idx (clip_row durations spans2)) (\<lambda>tgt.
          ebind (add_term (1 |\<in>| iou_loss_types)
                   (S_Diff_loss2 iou src tgt sims)
                   (map (fsub (Fin 1)) iou)) (\<lambda>new_loss.
          ebind (add_term (2 |\<in>| iou_loss_types)
                   (case vid_feat of None \<Rightarrow> Inl UnboundLocalError
                    | Some v \<Rightarrow> S_GT_P_loss2 iou src tgt v)
                   new_loss) (\<lambda>new_loss.
          ebind (add_term (3 |\<in>| iou_loss_types)
                   (S_Q_P_loss2 iou src sims)
                   new_loss) (\<lambda>new_loss.
          ebind (group_by bsz idx (\<lambda>b i. nth_err iou b)) (\<lambda>ious.
          ebind (group_by bsz idx (\<lambda>b i. nth_err new_loss b)) (\<lambda>sim_losses.
          Inr (new_loss,
               \<lparr>src_spans = src, tgt_spans = tgt, ious = ious, sim_losses = sim_losses\<rparr>))))))))))"

section \<open>Float32 arithmetic\<close>

text \<open>
  A float32 number is a multiple of \<open>2 ^ (e - 23)\<close> with at most 24 significant bits,
  for an exponent \<open>e\<close> from -126 to 127. \<open>f32_expo x\<close> is the exponent of the binade
  of \<open>x\<close> in that range (found by a search that starts at the smallest exponent),
  \<open>f32_val x\<close> rounds \<open>x\<close> to the nearest multiple of the binade's unit, a tie to the
  even one, and \<open>f32_round\<close> gives an infinity when the rounded value is out of range.
\<close>

definition pow2 :: "int \<Rightarrow> real" where
  "pow2 k = (if 0 \<le> k then 2 ^ nat k else 1 / 2 ^ nat (- k))"

fun expo_from :: "nat \<Rightarrow> int \<Rightarrow> real \<Rightarrow> int" where
  "expo_from 0 k a = k"
| "expo_from (Suc n) k a = (if a < pow2 (k + 1) then k else expo_from n (k + 1) a)"

definition f32_expo :: "real \<Rightarrow> int" where
  "f32_expo x = expo_from 253 (-126) \<bar>x\<bar>"

definition f32_val :: "real \<Rightarrow> real" where
  "f32_val x = (let q = pow2 (f32_expo x - 23) in q * torch_round (x / q))"

definition f32_round :: "real \<Rightarrow> fval" where
  "f32_round x =
     (let y = f32_val x
      in if pow2 128 \<le> \<bar>y\<bar> then (if 0 < y then PInf else NInf) else Fin y)"

text \<open>The operations of a float32 tensor: the exact result on two finite numbers,
  rounded; the IEEE result where an operand is an infinity or NaN.\<close>

fun add32 :: "fval \<Rightarrow> fval \<Rightarrow> fval" where
  "add32 (Fin a) (Fin b) = f32_round (a + b)"
| "add32 x y = fadd x y"

definition sub32 :: "fval \<Rightarrow> fval \<Rightarrow> fval" where
  "sub32 x y = add32 x (fneg y)"


text \<open>Division: a zero denominator gives NaN or an infinity, a finite number over an
  infinity gives zero. \<open>fmax\<close> and \<open>fmin\<close> are the elementwise \<open>torch.max\<close> and
  \<open>torch.min\<close> of two tensors, \<open>clamp_min0_f32\<close> is \<open>clamp(min=0)\<close>; NaN passes through
  all three.\<close>

fun div32 :: "fval \<Rightarrow> fval \<Rightarrow> fval" where
  "div32 (Fin a) (Fin b) = (if b \<noteq> 0 then f32_round (a / b) else fdiv a b)"
| "div32 NaN _ = NaN"
| "div32 _ NaN = NaN"
| "div32 (Fin a) _ = Fin 0"
| "div32 PInf (Fin b) = (if 0 \<le> b then PInf else NInf)"
| "div32 NInf (Fin b) = (if 0 \<le> b then NInf else PInf)"
| "div32 _ _ = NaN"

fun fmax :: "fval \<Rightarrow> fval \<Rightarrow> fval" where
  "fmax NaN _ = NaN"
| "fmax _ NaN = NaN"
| "fmax x y = (if fle x y then y else x)"

fun fmin :: "fval \<Rightarrow> fval \<Rightarrow> fval" where
  "fmin NaN _ = NaN"
| "fmin _ NaN = NaN"
| "fmin x y = (if fle x y then x else y)"

definition clamp_min0_f32 :: "fval \<Rightarrow> fval" where
  "clamp_min0_f32 x = fmax x (Fin 0)"

section \<open>The format converters, in float32\<close>

text \<open>\<open>xx_spans.sum(-1) * 0.5\<close> rounds the sum and then the product; each row of a batch
  is a pair of float32 values.\<close>

type_synonym fspan = "fval \<times> fval"



section \<open>Temporal IoU and generalized IoU, in float32\<close>

text \<open>
  The lines of \<open>temporal_iou\<close> and \<open>generalized_temporal_iou\<close> once more, every
  operation rounded. \<open>to_float\<close> is the cast \<open>spans.float()\<close>, and \<open>enclosing_area_f32\<close> is
  the local \<open>enclosing_area\<close> of \<open>generalized_temporal_iou\<close>.
\<close>

definition to_float :: "span list \<Rightarrow> fspan list" where
  "to_float spans = map (\<lambda>s. (f32_round (fst s), f32_round (snd s))) spans"

definition all_ge_f32 :: "fspan list \<Rightarrow> bool" where
  \<comment> \<open>\<open>(spans[:, 1] >= spans[:, 0]).all()\<close>\<close>
  "all_ge_f32 spans = list_all (\<lambda>s. fle (fst s) (snd s)) spans"

definition iou_inter_f32 :: "fspan list \<Rightarrow> fspan list \<Rightarrow> fval list list" where
  "iou_inter_f32 spans1 spans2 =
     (let left = outer fmax (map fst spans1) (map fst spans2);
          right = outer fmin (map snd spans1) (map snd spans2)
      in map (map clamp_min0_f32) (mat2 sub32 right left))"

definition temporal_iou_f32 :: "fspan list \<Rightarrow> fspan list \<Rightarrow> fval list list \<times> fval list list" where
  "temporal_iou_f32 spans1 spans2 =
     (let areas1 = map (\<lambda>s. sub32 (snd s) (fst s)) spans1;
          areas2 = map (\<lambda>s. sub32 (snd s) (fst s)) spans2;
          inter = iou_inter_f32 spans1 spans2;
          union = mat2 sub32 (outer add32 areas1 areas2) inter;
          iou = mat2 div32 inter union
      in (iou, union))"

definition enclosing_area_f32 :: "fspan list \<Rightarrow> fspan list \<Rightarrow> fval list list" where
  "enclosing_area_f32 spans1 spans2 =
     (let left = outer fmin (map fst spans1) (map fst spans2);
          right = outer fmax (map snd spans1) (map snd spans2)
      in map (map clamp_min0_f32) (mat2 sub32 right left))"

definition generalized_temporal_iou_f32 ::
  "span list \<Rightarrow> span list \<Rightarrow> py_error + fval list list" where
  "generalized_temporal_iou_f32 spans1 spans2 =
     (let spans1 = to_float spans1; spans2 = to_float spans2 in
      if \<not> all_ge_f32 spans1 then Inl AssertionError
      else if \<not> all_ge_f32 spans2 then Inl AssertionError
      else
        let (iou, union) = temporal_iou_f32 spans1 spans2;
            enclosing_area = enclosing_area_f32 spans1 spans2
        in Inr (mat2 sub32 iou (mat2 div32 (mat2 sub32 enclosing_area union) enclosing_area)))"

section \<open>Vocabulary of the statements\<close>

text \<open>\<open>valid_index n i\<close>: \<open>i\<close> is an index Python accepts for a sequence of length \<open>n\<close>.\<close>

definition valid_index :: "nat \<Rightarrow> int \<Rightarrow> bool" where
  "valid_index n i \<longleftrightarrow> - int n \<le> i \<and> i < int n"

text \<open>
  The positions \<open>(i, j)\<close> in the order in which the nested loops of a loss term walk
  the grouped spans: video \<open>i\<close> in \<open>range(bsz)\<close>, then \<open>j\<close> in
  \<open>range(len(src_spans[i]))\<close>. The \<open>k\<close>-th pooled similarity of a term belongs to the
  \<open>k\<close>-th position, and is multiplied with the \<open>k\<close>-th entry of \<open>iou\<close>.
\<close>

definition visits :: "nat \<Rightarrow> 'a list list \<Rightarrow> (nat \<times> nat) list" where
  "visits bsz src = concat (map (\<lambda>i. map (Pair i) [0 ..< length (src ! i)]) [0 ..< bsz])"

text \<open>An index span within the clip indices \<open>0 .. vid_len - 1\<close>, start at most end.\<close>

definition in_bounds :: "nat \<Rightarrow> ispan \<Rightarrow> bool" where
  "in_bounds vid_len p \<longleftrightarrow> 0 \<le> fst p \<and> fst p \<le> snd p \<and> snd p < int vid_len"

section \<open>Entries of the matrices\<close>

lemma outer_nth:
  "n < length xs \<Longrightarrow> m < length ys \<Longrightarrow> outer f xs ys ! n ! m = f (xs ! n) (ys ! m)"
  by (simp add: outer_def)

lemma outer_length [simp]: "length (outer f xs ys) = length xs"
  by (simp add: outer_def)

lemma outer_row_length [simp]: "n < length xs \<Longrightarrow> length (outer f xs ys ! n) = length ys"
  by (simp add: outer_def)

lemma mat2_length [simp]: "length (mat2 f a b) = min (length a) (length b)"
  by (simp add: mat2_def)

lemma mat2_row_length [simp]:
  "n < length a \<Longrightarrow> n < length b \<Longrightarrow>
   length (mat2 f a b ! n) = min (length (a ! n)) (length (b ! n))"
  by (simp add: mat2_def)

lemma mat2_nth:
  "n < length a \<Longrightarrow> n < length b \<Longrightarrow> m < length (a ! n) \<Longrightarrow> m < length (b ! n) \<Longrightarrow>
   mat2 f a b ! n ! m = f (a ! n ! m) (b ! n ! m)"
  by (simp add: mat2_def)

lemma iou_inter_nth:
  "n < length spans1 \<Longrightarrow> m < length spans2 \<Longrightarrow>
   iou_inter spans1 spans2 ! n ! m =
     max (min (snd (spans1 ! n)) (snd (spans2 ! m)) - max (fst (spans1 ! n)) (fst (spans2 ! m))) 0"
  by (simp add: iou_inter_def Let_def mat2_nth outer_nth clamp_min0_def)

lemma iou_inter_length [simp]: "length (iou_inter spans1 spans2) = length spans1"
  by (simp add: iou_inter_def Let_def)

lemma iou_inter_row_length [simp]:
  "n < length spans1 \<Longrightarrow> length (iou_inter spans1 spans2 ! n) = length spans2"
  by (simp add: iou_inter_def Let_def)

lemma union_nth:
  "n < length spans1 \<Longrightarrow> m < length spans2 \<Longrightarrow>
   snd (temporal_iou spans1 spans2) ! n ! m =
     (snd (spans1 ! n) - fst (spans1 ! n)) + (snd (spans2 ! m) - fst (spans2 ! m))
       - iou_inter spans1 spans2 ! n ! m"
  by (simp add: temporal_iou_def Let_def mat2_nth outer_nth)

lemma iou_nth:
  "n < length spans1 \<Longrightarrow> m < length spans2 \<Longrightarrow>
   fst (temporal_iou spans1 spans2) ! n ! m =
     fdiv (iou_inter spans1 spans2 ! n ! m) (snd (temporal_iou spans1 spans2) ! n ! m)"
  by (simp add: temporal_iou_def Let_def mat2_nth outer_nth)

lemma iou_shape:
  "length (fst (temporal_iou spans1 spans2)) = length spans1"
  "n < length spans1 \<Longrightarrow> length (fst (temporal_iou spans1 spans2) ! n) = length spans2"
  "length (snd (temporal_iou spans1 spans2)) = length spans1"
  "n < length spans1 \<Longrightarrow> length (snd (temporal_iou spans1 spans2) ! n) = length spans2"
  by (simp_all add: temporal_iou_def Let_def)


lemma valid_nth: "all_ge spans \<Longrightarrow> n < length spans \<Longrightarrow> fst (spans ! n) \<le> snd (spans ! n)"
  by (simp add: all_ge_def list_all_length)

section \<open>Claims about the IoU functions\<close>



text \<open>
  C7, as amended. Where row \<open>n\<close> of the first batch and row \<open>m\<close> of the second are the
  same span and its end is above its start, the IoU matrix is 1 at \<open>(n, m)\<close>.
\<close>

theorem iou_identical:
  assumes "n < length spans1" "m < length spans2" "spans1 ! n = spans2 ! m"
    and "fst (spans1 ! n) < snd (spans1 ! n)"
  shows "fst (temporal_iou spans1 spans2) ! n ! m = Fin 1"
  using assms by (simp add: iou_nth union_nth iou_inter_nth fdiv_def)

theorem iou_identical_witness:
  "fst (temporal_iou [(0, 1/5), (1/2, 1)] [(1/2, 1), (0, 1)]) ! 1 ! 0 = Fin 1"
  using iou_identical [of 1 "[(0, 1/5), (1/2, 1)]" 0 "[(1/2, 1), (0, 1)]"]
  by simp

text \<open>
  C7 as stated fails on a span of length zero, which has end at least start: the union
  is zero and the IoU of the span with itself is NaN.
\<close>

theorem iou_identical_counterexample:
  "fst (3/10 :: real, 3/10 :: real) \<le> snd (3/10 :: real, 3/10 :: real) \<and>
   fst (temporal_iou [(3/10, 3/10)] [(3/10, 3/10)]) ! 0 ! 0 = NaN \<and>
   fst (temporal_iou [(3/10, 3/10)] [(3/10, 3/10)]) ! 0 ! 0 \<noteq> Fin 1"
  by (simp add: temporal_iou_def iou_inter_def outer_def mat2_def clamp_min0_def fdiv_def Let_def)

text \<open>
  C8. On the documented example \<open>temporal_iou\<close> returns the IoU matrix
  \<open>[[2/3, 0.2], [0, 0.5]]\<close> and the union matrix \<open>[[0.3, 1.0], [0.8, 1.0]]\<close>; \<open>2/3\<close> is
  within a thousandth of the quoted \<open>0.667\<close>.
\<close>

theorem iou_example:
  "temporal_iou [(0, 0.2), (0.5, 1.0)] [(0, 0.3), (0, 1.0)] =
     ([[Fin (2/3), Fin 0.2], [Fin 0, Fin 0.5]], [[0.3, 1.0], [0.8, 1.0]]) \<and>
   \<bar>2/3 - 0.667\<bar> < (0.001 :: real)"
  by (simp add: temporal_iou_def iou_inter_def outer_def mat2_def clamp_min0_def fdiv_def Let_def)

text \<open>
  C10. For batches whose rows all have end at least start, every entry of the
  intersection is non-negative, and wherever the union is positive the IoU is a finite
  number between 0 and 1.
\<close>

theorem iou_bounds:
  assumes "all_ge spans1" "all_ge spans2" "n < length spans1" "m < length spans2"
  shows "0 \<le> iou_inter spans1 spans2 ! n ! m \<and>
    (0 < snd (temporal_iou spans1 spans2) ! n ! m \<longrightarrow>
      (\<exists>r. fst (temporal_iou spans1 spans2) ! n ! m = Fin r \<and> 0 \<le> r \<and> r \<le> 1))"
proof -
  let ?a = "spans1 ! n" and ?b = "spans2 ! m"
  let ?i = "iou_inter spans1 spans2 ! n ! m"
  let ?u = "snd (temporal_iou spans1 spans2) ! n ! m"
  have va: "fst ?a \<le> snd ?a" and vb: "fst ?b \<le> snd ?b"
    using assms by (simp_all add: valid_nth)
  have i: "?i = max (min (snd ?a) (snd ?b) - max (fst ?a) (fst ?b)) 0"
    using assms by (simp add: iou_inter_nth)
  have u: "?u = (snd ?a - fst ?a) + (snd ?b - fst ?b) - ?i"
    using assms by (simp add: union_nth)
  have i0: "0 \<le> ?i" by (simp add: i)
  have iu: "?i \<le> ?u" using va vb unfolding u i by (simp add: max_def min_def)
  have "fst (temporal_iou spans1 spans2) ! n ! m = Fin (?i / ?u) \<and> 0 \<le> ?i / ?u \<and> ?i / ?u \<le> 1"
    if "0 < ?u"
    using that i0 iu assms(3,4) by (simp add: iou_nth fdiv_def)
  then show ?thesis using i0 by blast
qed

theorem iou_bounds_witness:
  "0 \<le> iou_inter [(0, 1/5), (1/2, 1)] [(0, 3/10), (0, 1)] ! 0 ! 0 \<and>
   0 < snd (temporal_iou [(0, 1/5), (1/2, 1)] [(0, 3/10), (0, 1)]) ! 0 ! 0 \<and>
   (\<exists>r. fst (temporal_iou [(0, 1/5), (1/2, 1)] [(0, 3/10), (0, 1)]) ! 0 ! 0 = Fin r
        \<and> 0 \<le> r \<and> r \<le> 1)"
proof -
  have u: "0 < snd (temporal_iou [(0, 1/5), (1/2, 1)] [(0, 3/10), (0, 1)]) ! 0 ! 0"
    by (simp add: temporal_iou_def iou_inter_def outer_def mat2_def clamp_min0_def Let_def)
  show ?thesis
    using u iou_bounds [of "[(0, 1/5), (1/2, 1)]" "[(0, 3/10), (0, 1)]" 0 0]
    by (simp add: all_ge_def)
qed

section \<open>Rounding, grouping and the aggregator without terms\<close>

lemma torch_round_mono: "x \<le> y \<Longrightarrow> torch_round x \<le> torch_round y"
proof -
  assume xy: "x \<le> y"
  have fl: "\<lfloor>x\<rfloor> \<le> \<lfloor>y\<rfloor>" using xy by (rule floor_mono)
  have lo: "of_int \<lfloor>y\<rfloor> \<le> torch_round y"
    by (simp add: torch_round_def Let_def)
  have hi: "torch_round x \<le> of_int \<lfloor>x\<rfloor> + 1"
    by (simp add: torch_round_def Let_def)
  show ?thesis
  proof (cases "\<lfloor>x\<rfloor> = \<lfloor>y\<rfloor>")
    case True
    then show ?thesis using xy by (auto simp: torch_round_def Let_def)
  next
    case False
    with fl have "\<lfloor>x\<rfloor> + 1 \<le> \<lfloor>y\<rfloor>" by simp
    then have "(of_int \<lfloor>x\<rfloor> :: real) + 1 \<le> of_int \<lfloor>y\<rfloor>"
      by (metis of_int_1 of_int_add of_int_le_iff)
    with lo hi show ?thesis by linarith
  qed
qed

lemma all_ge_scale_round: "all_ge spans \<Longrightarrow> all_ge (scale_round L spans)"
  by (auto simp: all_ge_def scale_round_def list_all_iff intro!: torch_round_mono mult_right_mono)

lemma ebind_Inr [simp]: "ebind (Inr x) f = f x"
  by (simp add: ebind_def)

lemma ebind_Inl [simp]: "ebind (Inl e) f = Inl e"
  by (simp add: ebind_def)

lemma py_index_Inr: "py_index n i = Inr k \<Longrightarrow> k < n"
  by (auto simp: py_index_def split: if_splits)

lemma py_index_valid: "valid_index n i \<Longrightarrow> \<exists>k < n. py_index n i = Inr k"
  by (auto simp: py_index_def valid_index_def)

lemma group_loop_total:
  assumes "\<forall>i \<in> set idx. valid_index (length g) i"
    and "\<forall>j < length idx. \<exists>x. item (b + j) (idx ! j) = Inr x"
  shows "\<exists>g'. group_loop item g b idx = Inr g'"
  using assms
proof (induction idx arbitrary: g b)
  case Nil
  then show ?case by simp
next
  case (Cons i idx)
  from Cons.prems(1) obtain k where k: "py_index (length g) i = Inr k"
    using py_index_valid by fastforce
  from Cons.prems(2) [rule_format, of 0] obtain x where x: "item b i = Inr x" by auto
  have "\<forall>j < length idx. \<exists>x. item (Suc b + j) (idx ! j) = Inr x"
    using Cons.prems(2) by (metis Suc_less_eq add_Suc_shift length_Cons nth_Cons_Suc)
  moreover have "\<forall>i \<in> set idx. valid_index (length (g[k := g ! k @ [x]])) i"
    using Cons.prems(1) by simp
  ultimately obtain g' where "group_loop item (g[k := g ! k @ [x]]) (Suc b) idx = Inr g'"
    using Cons.IH by blast
  then show ?case by (simp add: k x)
qed

lemma group_by_total:
  assumes "\<forall>i \<in> set idx. valid_index bsz i"
    and "\<forall>j < length idx. \<exists>x. item j (idx ! j) = Inr x"
  shows "\<exists>g. group_by bsz idx item = Inr g"
  unfolding group_by_def using group_loop_total [of idx "replicate bsz []" item 0] assms by simp

lemma getitem_valid: "valid_index (length xs) i \<Longrightarrow> \<exists>x. getitem xs i = Inr x"
  using py_index_valid [of "length xs" i] by (auto simp: getitem_def)

lemma diag_iou:
  "length spans1 = B \<Longrightarrow> length spans2 = B \<Longrightarrow>
   diag (length spans2) (fst (temporal_iou spans1 spans2)) =
     map (\<lambda>i. fst (temporal_iou spans1 spans2) ! i ! i) [0 ..< B]"
  by (simp add: diag_def iou_shape)

lemma getitem_0: "sims \<noteq> [] \<Longrightarrow> getitem sims 0 = Inr (hd sims)"
  by (cases sims) (simp_all add: getitem_def py_index_def)

lemma bind_sims_empty:
  "sims \<noteq> [] \<Longrightarrow> bind_sims {||} sims rest = rest (Ten (hd sims)) None (hd sims)"
  by (simp add: bind_sims_def getitem_0)

lemma add_term_off [simp]: "add_term False t l = Inr l"
  by (simp add: add_term_def)

lemma new_loss_loss1_empty:
  assumes "all_ge spans1" "all_ge spans2" "sims \<noteq> []"
  shows "new_loss_loss1 {||} spans1 spans2 sims idx =
    Inr (map (fsub (Fin 1)) (diag (length spans2) (fst (temporal_iou spans1 spans2))),
         diag (length spans2) (fst (temporal_iou spans1 spans2)))"
  using assms by (simp add: new_loss_loss1_def bind_sims_empty Let_def all_ge_scale_round)

lemma clip_row_total:
  assumes "valid_index (length durations) i" "b < length spans"
  shows "\<exists>x. clip_row durations spans b i = Inr x"
  using getitem_valid [OF assms(1)] assms(2) by (auto simp: clip_row_def nth_err_def Let_def)

lemma group_by_clip_total:
  assumes "\<forall>i \<in> set idx. valid_index bsz i \<and> valid_index (length durations) i"
    and "length idx \<le> length spans"
  shows "\<exists>g. group_by bsz idx (clip_row durations spans) = Inr g"
proof (rule group_by_total)
  show "\<forall>i \<in> set idx. valid_index bsz i" using assms(1) by blast
  show "\<forall>j < length idx. \<exists>x. clip_row durations spans j (idx ! j) = Inr x"
  proof (intro allI impI)
    fix j assume j: "j < length idx"
    then have "valid_index (length durations) (idx ! j)" using assms(1) by simp
    moreover have "j < length spans" using j assms(2) by simp
    ultimately show "\<exists>x. clip_row durations spans j (idx ! j) = Inr x"
      by (rule clip_row_total)
  qed
qed

lemma group_by_nth_total:
  assumes "\<forall>i \<in> set idx. valid_index bsz i" and "length idx \<le> length xs"
  shows "\<exists>g. group_by bsz idx (\<lambda>b i. nth_err xs b) = Inr g"
  by (rule group_by_total) (use assms in \<open>auto simp: nth_err_def\<close>)

lemma new_loss_loss2_empty:
  assumes "all_ge spans1" "all_ge spans2" "sims \<noteq> []"
    and "length spans1 = B" "length spans2 = B" "length idx \<le> B"
    and ix: "\<forall>i \<in> set idx. valid_index (tshape0 (hd sims)) i \<and> valid_index (length durations) i"
  shows "\<exists>d. new_loss_loss2 {||} spans1 spans2 sims idx durations =
    Inr (map (fsub (Fin 1)) (diag (length spans2) (fst (temporal_iou spans1 spans2))), d)"
proof -
  let ?iou = "diag (length spans2) (fst (temporal_iou spans1 spans2))"
  let ?bsz = "tshape0 (hd sims)"
  have len: "length ?iou = B" using assms(4,5) by (simp add: diag_def iou_shape)
  obtain src where src: "group_by ?bsz idx (clip_row durations spans1) = Inr src"
    using group_by_clip_total [of idx ?bsz durations spans1] ix assms(4,6) by auto
  obtain tgt where tgt: "group_by ?bsz idx (clip_row durations spans2) = Inr tgt"
    using group_by_clip_total [of idx ?bsz durations spans2] ix assms(5,6) by auto
  obtain g1 where g1: "group_by ?bsz idx (\<lambda>b i. nth_err ?iou b) = Inr g1"
    using group_by_nth_total [of idx ?bsz ?iou] ix assms(6) len by auto
  obtain g2 where g2: "group_by ?bsz idx (\<lambda>b i. nth_err (map (fsub (Fin 1)) ?iou) b) = Inr g2"
    using group_by_nth_total [of idx ?bsz "map (fsub (Fin 1)) ?iou"] ix assms(6) len by auto
  show ?thesis
    using assms(1-3) by (simp add: new_loss_loss2_def bind_sims_empty Let_def src tgt g1 g2)
qed

section \<open>The walk of a loss term over the grouped spans\<close>

lemma length_visits:
  "length src = bsz \<Longrightarrow> length (visits bsz src) = length (concat src)"
proof -
  assume l: "length src = bsz"
  have "map (\<lambda>i. length (src ! i)) [0 ..< length src] = map length src"
    by (rule nth_equalityI) simp_all
  then show ?thesis
    by (simp add: visits_def length_concat comp_def l [symmetric])
qed

lemma concat_update_length:
  "k < length g \<Longrightarrow> length (concat (g[k := g ! k @ [x]])) = Suc (length (concat g))"
  by (simp add: length_concat map_update sum_list_update)

lemma group_loop_lengths:
  "group_loop item g b idx = Inr g' \<Longrightarrow>
   length g' = length g \<and> length (concat g') = length (concat g) + length idx"
proof (induction idx arbitrary: g b)
  case Nil
  then show ?case by simp
next
  case (Cons i idx)
  from Cons.prems obtain k x where k: "py_index (length g) i = Inr k"
    and x: "item b i = Inr x"
    and r: "group_loop item (g[k := g ! k @ [x]]) (Suc b) idx = Inr g'"
    by (auto simp: ebind_def split: sum.splits)
  have kl: "k < length g" using k by (rule py_index_Inr)
  from Cons.IH [OF r] show ?case by (simp add: concat_update_length kl)
qed

lemma group_by_lengths:
  "group_by bsz idx item = Inr g \<Longrightarrow> length g = bsz \<and> length (concat g) = length idx"
  unfolding group_by_def by (drule group_loop_lengths) simp

lemma clamp_in_bounds:
  "in_bounds L p \<Longrightarrow> clamp_src L p = p \<and> clamp_tgt L p = p"
  by (cases p) (auto simp: in_bounds_def clamp_src_def clamp_tgt_def)

lemma slice_range_in_bounds:
  "in_bounds L p \<Longrightarrow> slice_range L (fst p) (snd p + 1) = [nat (fst p) ..< Suc (nat (snd p))]"
  by (auto simp: in_bounds_def slice_range_def slice_bound_def min_def nat_add_distrib)

lemma slice_mean_in_bounds:
  "in_bounds (shape1 lg) p \<Longrightarrow>
   slice_mean lg i p =
     Fin ((\<Sum>t \<leftarrow> [nat (fst p) ..< Suc (nat (snd p))]. at2 lg i t) / real (nat (snd p - fst p + 1)))"
  by (auto simp: slice_mean_def slice_range_in_bounds fmean_def in_bounds_def Suc_diff_le nat_diff_distrib nat_add_distrib)

lemma fabs_fsub_Fin [simp]: "fabs (fsub (Fin a) (Fin a)) = Fin 0"
  by (simp add: fsub_def)

lemma broadcast_same_length:
  "length xs = length ys \<Longrightarrow> broadcast f xs ys = Inr (map2 f xs ys)"
  by (simp add: broadcast_def)

lemma stack_nonempty: "xs \<noteq> [] \<Longrightarrow> stack xs = Inr xs"
  by (simp add: stack_def)

lemma S_Diff_loss1_visits:
  assumes g1: "group_by (shape0 lg) idx (row_int spans1) = Inr src"
    and g2: "group_by (shape0 lg) idx (row_int spans2) = Inr tgt"
    and li: "length iou = length idx" and ne: "idx \<noteq> []"
  shows "S_Diff_loss1 iou spans1 spans2 (Ten (T2 lg)) idx =
    Inr (map2 fmul (map (fsub (Fin 1)) iou)
      (map (\<lambda>(i, j). fabs (fsub (slice_mean lg i (clamp_src (shape1 lg) (src ! i ! j)))
                                  (slice_mean lg i (clamp_tgt (shape1 lg) (tgt ! i ! j)))))
           (visits (shape0 lg) src)))"
proof -
  let ?body = "\<lambda>(i, j). fabs (fsub (slice_mean lg i (clamp_src (shape1 lg) (src ! i ! j)))
                                  (slice_mean lg i (clamp_tgt (shape1 lg) (tgt ! i ! j))))"
  have lv: "length (visits (shape0 lg) src) = length idx"
    using group_by_lengths [OF g1] by (simp add: length_visits)
  have sd: "concat (map (\<lambda>i. map (\<lambda>j.
           let src_sim = slice_mean lg i (clamp_src (shape1 lg) (src ! i ! j));
               tgt_sim = slice_mean lg i (clamp_tgt (shape1 lg) (tgt ! i ! j))
           in fabs (fsub src_sim tgt_sim)) [0 ..< length (src ! i)]) [0 ..< shape0 lg])
      = map ?body (visits (shape0 lg) src)"
    by (simp add: visits_def map_concat comp_def Let_def)
  have ne': "map ?body (visits (shape0 lg) src) \<noteq> []"
    using lv ne by auto
  show ?thesis
    unfolding S_Diff_loss1_def
    by (simp add: g1 g2 Let_def sd [unfolded Let_def] stack_nonempty [OF ne']
        broadcast_same_length li lv del: map_map)
qed

lemma S_Q_P_loss1_visits:
  assumes g1: "group_by (shape0 lg) idx (row_int spans) = Inr src"
    and li: "length iou = length idx" and ne: "idx \<noteq> []"
  shows "S_Q_P_loss1 iou spans (Ten (T2 lg)) idx =
    Inr (map2 fmul (map (fsub (Fin 1)) iou)
      (map (fsub (Fin 1))
        (map (\<lambda>(i, j). slice_mean lg i (clamp_src (shape1 lg) (src ! i ! j)))
             (visits (shape0 lg) src))))"
proof -
  let ?body = "\<lambda>(i, j). slice_mean lg i (clamp_src (shape1 lg) (src ! i ! j))"
  have lv: "length (visits (shape0 lg) src) = length idx"
    using group_by_lengths [OF g1] by (simp add: length_visits)
  have sd: "concat (map (\<lambda>i. map (\<lambda>j. slice_mean lg i (clamp_src (shape1 lg) (src ! i ! j)))
              [0 ..< length (src ! i)]) [0 ..< shape0 lg])
      = map ?body (visits (shape0 lg) src)"
    by (simp add: visits_def map_concat comp_def)
  have ne': "map ?body (visits (shape0 lg) src) \<noteq> []"
    using lv ne by auto
  show ?thesis
    unfolding S_Q_P_loss1_def
    by (simp add: g1 Let_def sd stack_nonempty [OF ne']
        broadcast_same_length li lv del: map_map)
qed

section \<open>Clip indices stay in range\<close>








section \<open>Claims about the aggregator, the index mapping and the loss terms\<close>

text \<open>
  C1. For batches of \<open>B\<close> predicted and \<open>B\<close> ground-truth spans whose rows all have end
  at least start, \<open>new_loss\<close> with no term enabled returns, for every example \<open>i\<close>, one
  minus the IoU of row \<open>i\<close> of the predictions with row \<open>i\<close> of the ground truth. This
  holds in both snapshots, for a payload tuple that is not empty; the second snapshot
  also walks \<open>idx\<close>, so there every entry of \<open>idx\<close> has to be an index of a video and
  of its duration, with at most \<open>B\<close> entries.
\<close>

theorem new_loss_empty_terms:
  assumes "all_ge spans1" "all_ge spans2" "length spans1 = B" "length spans2 = B"
    and "sims \<noteq> []"
  shows "new_loss_loss1 {||} spans1 spans2 sims idx =
      Inr (map (\<lambda>i. fsub (Fin 1) (fst (temporal_iou spans1 spans2) ! i ! i)) [0 ..< B],
           map (\<lambda>i. fst (temporal_iou spans1 spans2) ! i ! i) [0 ..< B]) \<and>
    (length idx \<le> B \<and>
     (\<forall>i \<in> set idx. valid_index (tshape0 (hd sims)) i \<and> valid_index (length durations) i)
     \<longrightarrow> (\<exists>d. new_loss_loss2 {||} spans1 spans2 sims idx durations =
           Inr (map (\<lambda>i. fsub (Fin 1) (fst (temporal_iou spans1 spans2) ! i ! i)) [0 ..< B], d)))"
proof -
  have dg: "diag (length spans2) (fst (temporal_iou spans1 spans2)) =
      map (\<lambda>i. fst (temporal_iou spans1 spans2) ! i ! i) [0 ..< B]"
    using assms(3,4) by (rule diag_iou)
  have one: "new_loss_loss1 {||} spans1 spans2 sims idx =
      Inr (map (\<lambda>i. fsub (Fin 1) (fst (temporal_iou spans1 spans2) ! i ! i)) [0 ..< B],
           map (\<lambda>i. fst (temporal_iou spans1 spans2) ! i ! i) [0 ..< B])"
    using new_loss_loss1_empty [OF assms(1,2,5), of idx] by (simp add: dg comp_def)
  have two: "\<exists>d. new_loss_loss2 {||} spans1 spans2 sims idx durations =
           Inr (map (\<lambda>i. fsub (Fin 1) (fst (temporal_iou spans1 spans2) ! i ! i)) [0 ..< B], d)"
    if "length idx \<le> B"
      and "\<forall>i \<in> set idx. valid_index (tshape0 (hd sims)) i \<and> valid_index (length durations) i"
    using new_loss_loss2_empty [OF assms(1,2,5,3,4) that] by (simp add: dg comp_def)
  from one two show ?thesis by blast
qed

theorem new_loss_empty_terms_witness:
  "new_loss_loss1 {||} [(0, 1/5), (1/2, 1)] [(0, 3/10), (0, 1)]
       [T2 \<lparr>shape0 = 2, shape1 = 75, at2 = (\<lambda>i j. 0)\<rparr>] [0, 1] =
     Inr ([Fin (1/3), Fin (1/2)], [Fin (2/3), Fin (1/2)]) \<and>
   (\<exists>d. new_loss_loss2 {||} [(0, 1/5), (1/2, 1)] [(0, 3/10), (0, 1)]
       [T2 \<lparr>shape0 = 2, shape1 = 75, at2 = (\<lambda>i j. 0)\<rparr>] [0, 1] [150, 120] =
     Inr ([Fin (1/3), Fin (1/2)], d))"
proof -
  have t: "temporal_iou [(0, 1/5), (1/2, 1)] [(0, 3/10), (0, 1)] =
     ([[Fin (2/3), Fin (1/5)], [Fin 0, Fin (1/2)]], [[3/10, 1], [4/5, 1]])"
    by (simp add: temporal_iou_def iou_inter_def outer_def mat2_def clamp_min0_def fdiv_def Let_def)
  have u: "[0 ..< 2] = [0, 1]" by (simp add: upt_conv_Cons)
  show ?thesis
    using new_loss_empty_terms [of "[(0, 1/5), (1/2, 1)]" "[(0, 3/10), (0, 1)]" 2
        "[T2 \<lparr>shape0 = 2, shape1 = 75, at2 = (\<lambda>i j. 0)\<rparr>]" "[0, 1]" "[150, 120]"]
    by (simp add: all_ge_def valid_index_def t u fsub_def)
qed




text \<open>
  C6. A duration of 150 gives the clip length 75, and the span \<open>[0.5, 1.0]\<close> is mapped
  to the clip indices \<open>[38, 74]\<close>, also as \<open>new_loss\<close> of the second snapshot reports
  them for the predicted and the ground-truth span.
\<close>

theorem clip_index_example:
  "clip_len 150 = 75 \<and>
   clip_span (clip_len 150) (1/2, 1) = (38, 74) \<and>
   (\<exists>loss d. new_loss_loss2 {||} [(1/2, 1)] [(1/2, 1)]
        [T2 \<lparr>shape0 = 1, shape1 = 75, at2 = (\<lambda>i j. 0)\<rparr>] [0] [150] = Inr (loss, d) \<and>
      src_spans d = [[(38, 74)]] \<and> tgt_spans d = [[(38, 74)]])"
  by (simp add: clip_len_def clip_span_def torch_round_def torch_clamp_def to_int_def Let_def
      new_loss_loss2_def bind_sims_def getitem_def py_index_def all_ge_def group_by_def
      clip_row_def nth_err_def diag_def temporal_iou_def iou_inter_def outer_def mat2_def
      clamp_min0_def fdiv_def)

text \<open>
  C9, as amended. Let the \<open>k\<close>-th pair a loss term visits be span \<open>j\<close> of video \<open>i\<close>,
  with the same index span for prediction and ground truth, within the clip indices.
  Then \<open>S_Diff\<close> returns, at \<open>k\<close>, \<open>(1 - iou[k]) * 0\<close>, which is 0 when \<open>iou[k]\<close> is a
  finite number; and \<open>S_Q_P\<close>, which takes no ground-truth span, returns at \<open>k\<close> the
  product of \<open>1 - iou[k]\<close> and one minus the mean of the video's similarities over the
  predicted range.
\<close>

theorem identical_span_terms:
  assumes g1: "group_by (shape0 lg) idx (row_int spans1) = Inr src"
    and g2: "group_by (shape0 lg) idx (row_int spans2) = Inr tgt"
    and li: "length iou = length idx" and k: "k < length idx"
    and v: "visits (shape0 lg) src ! k = (i, j)"
    and same: "src ! i ! j = tgt ! i ! j"
    and inb: "in_bounds (shape1 lg) (src ! i ! j)"
  shows "(\<exists>out. S_Diff_loss1 iou spans1 spans2 (Ten (T2 lg)) idx = Inr out \<and>
            length out = length idx \<and>
            out ! k = fmul (fsub (Fin 1) (iou ! k)) (Fin 0) \<and>
            (\<forall>r. iou ! k = Fin r \<longrightarrow> out ! k = Fin 0)) \<and>
         (\<exists>out. S_Q_P_loss1 iou spans1 (Ten (T2 lg)) idx = Inr out \<and>
            length out = length idx \<and>
            out ! k = fmul (fsub (Fin 1) (iou ! k))
              (Fin (1 - (\<Sum>t \<leftarrow> [nat (fst (src ! i ! j)) ..< Suc (nat (snd (src ! i ! j)))]. at2 lg i t)
                        / real (nat (snd (src ! i ! j) - fst (src ! i ! j) + 1)))))"
proof -
  let ?p = "src ! i ! j"
  have ne: "idx \<noteq> []" using k by auto
  have lv: "length (visits (shape0 lg) src) = length idx"
    using group_by_lengths [OF g1] by (simp add: length_visits)
  have cl: "clamp_src (shape1 lg) ?p = ?p" "clamp_tgt (shape1 lg) ?p = ?p"
    using clamp_in_bounds [OF inb] by simp_all
  note sm = slice_mean_in_bounds [OF inb, of i]
  have d: "S_Diff_loss1 iou spans1 spans2 (Ten (T2 lg)) idx = Inr (map2 fmul (map (fsub (Fin 1)) iou)
      (map (\<lambda>(i, j). fabs (fsub (slice_mean lg i (clamp_src (shape1 lg) (src ! i ! j)))
                                  (slice_mean lg i (clamp_tgt (shape1 lg) (tgt ! i ! j)))))
           (visits (shape0 lg) src)))" (is "_ = Inr ?out")
    by (rule S_Diff_loss1_visits [OF g1 g2 li ne])
  have dk: "?out ! k = fmul (fsub (Fin 1) (iou ! k)) (Fin 0)"
    using k li lv v same [symmetric] by (simp add: cl sm)
  have fin: "\<forall>r. iou ! k = Fin r \<longrightarrow> ?out ! k = Fin 0"
    unfolding dk by (auto simp: fsub_def)
  have lo: "length ?out = length idx" using li lv by simp
  from d dk lo fin have part1: "\<exists>out. S_Diff_loss1 iou spans1 spans2 (Ten (T2 lg)) idx = Inr out \<and>
            length out = length idx \<and>
            out ! k = fmul (fsub (Fin 1) (iou ! k)) (Fin 0) \<and>
            (\<forall>r. iou ! k = Fin r \<longrightarrow> out ! k = Fin 0)"
    by blast
  have q: "S_Q_P_loss1 iou spans1 (Ten (T2 lg)) idx = Inr (map2 fmul (map (fsub (Fin 1)) iou)
      (map (fsub (Fin 1))
        (map (\<lambda>(i, j). slice_mean lg i (clamp_src (shape1 lg) (src ! i ! j)))
             (visits (shape0 lg) src))))" (is "_ = Inr ?outq")
    by (rule S_Q_P_loss1_visits [OF g1 li ne])
  have qk: "?outq ! k = fmul (fsub (Fin 1) (iou ! k))
              (Fin (1 - (\<Sum>t \<leftarrow> [nat (fst ?p) ..< Suc (nat (snd ?p))]. at2 lg i t)
                        / real (nat (snd ?p - fst ?p + 1))))"
    using k li lv v by (simp add: cl sm fsub_def)
  have lq: "length ?outq = length idx" using li lv by simp
  from q qk lq have part2: "\<exists>out. S_Q_P_loss1 iou spans1 (Ten (T2 lg)) idx = Inr out \<and>
            length out = length idx \<and>
            out ! k = fmul (fsub (Fin 1) (iou ! k))
              (Fin (1 - (\<Sum>t \<leftarrow> [nat (fst ?p) ..< Suc (nat (snd ?p))]. at2 lg i t)
                        / real (nat (snd ?p - fst ?p + 1))))"
    by blast
  from part1 part2 show ?thesis by blast
qed

theorem identical_span_terms_witness:
  "(\<exists>out. S_Diff_loss1 [Fin (1/2), Fin (1/4)] [(1, 2), (0, 4)] [(1, 2), (3, 4)]
       (Ten (T2 \<lparr>shape0 = 2, shape1 = 5,
                   at2 = (\<lambda>i j. [[1/10, 2/10, 3/10, 4/10, 5/10], [1, 2, 3, 4, 5]] ! i ! j)\<rparr>))
       [0, 1] = Inr out \<and> out ! 0 = Fin 0) \<and>
   (\<exists>out. S_Q_P_loss1 [Fin (1/2), Fin (1/4)] [(1, 2), (0, 4)]
       (Ten (T2 \<lparr>shape0 = 2, shape1 = 5,
                   at2 = (\<lambda>i j. [[1/10, 2/10, 3/10, 4/10, 5/10], [1, 2, 3, 4, 5]] ! i ! j)\<rparr>))
       [0, 1] = Inr out \<and> out ! 0 = Fin (3/8))"
proof -
  let ?lg = "\<lparr>shape0 = 2, shape1 = 5,
       at2 = (\<lambda>i j. [[1/10, 2/10, 3/10, 4/10, 5/10], [1, 2, 3, 4, 5 :: real]] ! i ! j)\<rparr>"
  have g1: "group_by (shape0 ?lg) [0, 1] (row_int [(1, 2), (0, 4)]) = Inr [[(1, 2)], [(0, 4)]]"
    by (simp add: group_by_def py_index_def row_int_def int_span_def to_int_def
          numeral_2_eq_2)
  have g2: "group_by (shape0 ?lg) [0, 1] (row_int [(1, 2), (3, 4)]) = Inr [[(1, 2)], [(3, 4)]]"
    by (simp add: group_by_def py_index_def row_int_def int_span_def to_int_def
          numeral_2_eq_2)
  have v: "visits (shape0 ?lg) [[(1, 2)], [(0, 4 :: int)]] ! 0 = (0, 0)"
    by (simp add: visits_def numeral_2_eq_2 upt_conv_Cons)
  have s: "[[(1, 2)], [(0, 4)]] ! 0 ! 0 = [[(1, 2)], [(3, 4 :: int)]] ! 0 ! 0"
    by simp
  have b: "in_bounds (shape1 ?lg) ([[(1, 2)], [(0, 4)]] ! 0 ! 0)"
    by (simp add: in_bounds_def)
  have m: "[Suc 0 ..< 3] = [1, 2]"
    by (simp add: upt_conv_Cons)
  show ?thesis
    using identical_span_terms [OF g1 g2 _ _ v s b, of "[Fin (1/2), Fin (1/4)]"]
    by (simp add: fsub_def m) blast
qed

text \<open>
  C9 as stated fails when the IoU of the pair is NaN: the \<open>S_Diff\<close> term is then NaN and
  not 0. \<open>new_loss\<close> reaches this with a predicted and a ground-truth span that are the
  same point.
\<close>

theorem identical_span_terms_counterexample:
  "S_Diff_loss1 [NaN] [(1, 2)] [(1, 2)]
       (Ten (T2 \<lparr>shape0 = 1, shape1 = 5, at2 = (\<lambda>i j. [[1/10, 2/10, 3/10, 4/10, 5/10]] ! i ! j)\<rparr>))
       [0] = Inr [NaN] \<and>
   new_loss_loss1 {|1|} [(1/2, 1/2)] [(1/2, 1/2)]
       [T2 \<lparr>shape0 = 1, shape1 = 5, at2 = (\<lambda>i j. [[1/10, 2/10, 3/10, 4/10, 5/10]] ! i ! j)\<rparr>]
       [0] = Inr ([NaN], [NaN])"
  by (simp add: group_by_def py_index_def row_int_def int_span_def to_int_def ebind_def
      visits_def in_bounds_def S_Diff_loss1_def S_Q_P_loss1_def Let_def stack_def broadcast_def
      slice_mean_def slice_range_def slice_bound_def clamp_src_def clamp_tgt_def fmean_def fsub_def new_loss_loss1_def bind_sims_def getitem_def temporal_iou_def
      iou_inter_def outer_def mat2_def clamp_min0_def fdiv_def diag_def scale_round_def
      torch_round_def all_ge_def add_term_def iadd_def)

section \<open>Float32 rounding: exponent, sign, order and error\<close>

lemma pow2_powr: "pow2 k = 2 powr real_of_int k"
  by (simp add: pow2_def powr_real_of_int inverse_eq_divide)

lemma pow2_pos [simp]: "0 < pow2 k"
  by (simp add: pow2_powr)

lemma pow2_nz [simp]: "pow2 k \<noteq> 0"
  using pow2_pos [of k] by linarith


lemma pow2_1 [simp]: "pow2 1 = 2"
  by (simp add: pow2_def)




lemma pow2_0 [simp]: "pow2 0 = 1"
  by (simp add: pow2_def)






lemma f32_expo_abs: "f32_expo \<bar>x\<bar> = f32_expo x"
  by (simp add: f32_expo_def)

lemma f32_expo_minus [simp]: "f32_expo (- x) = f32_expo x"
  by (simp add: f32_expo_def)



lemma torch_round_of_int [simp]: "torch_round (of_int n) = of_int n"
  by (simp add: torch_round_def Let_def)





lemma f32_val_0 [simp]: "f32_val 0 = 0"
  using torch_round_of_int [of 0] by (simp add: f32_val_def Let_def)


















section \<open>Float32 operations and the entries of the float32 matrices\<close>








lemma f32_round_0 [simp]: "f32_round 0 = Fin 0"
  using pow2_pos [of 128] by (simp add: f32_round_def Let_def not_le)










lemma iou_inter_f32_nth:
  "n < length spans1 \<Longrightarrow> m < length spans2 \<Longrightarrow>
   iou_inter_f32 spans1 spans2 ! n ! m =
     clamp_min0_f32 (sub32 (fmin (snd (spans1 ! n)) (snd (spans2 ! m)))
                           (fmax (fst (spans1 ! n)) (fst (spans2 ! m))))"
  by (simp add: iou_inter_f32_def Let_def mat2_nth outer_nth)

lemma iou_inter_f32_shape [simp]:
  "length (iou_inter_f32 spans1 spans2) = length spans1"
  "n < length spans1 \<Longrightarrow> length (iou_inter_f32 spans1 spans2 ! n) = length spans2"
  by (simp_all add: iou_inter_f32_def Let_def)





lemma enclosing_area_f32_shape [simp]:
  "length (enclosing_area_f32 spans1 spans2) = length spans1"
  "n < length spans1 \<Longrightarrow> length (enclosing_area_f32 spans1 spans2 ! n) = length spans2"
  by (simp_all add: enclosing_area_f32_def Let_def)

lemma to_float_length [simp]: "length (to_float spans) = length spans"
  by (simp add: to_float_def)

text \<open>On float32 inputs the cast changes nothing, and the float32 embedding fails exactly
  when the exact one does.\<close>

lemma all_ge_f32_to_float:
  assumes "\<forall>s \<in> set spans. f32_round (fst s) = Fin (fst s) \<and> f32_round (snd s) = Fin (snd s)"
  shows "all_ge_f32 (to_float spans) = all_ge spans"
  using assms by (induction spans) (simp_all add: all_ge_f32_def to_float_def all_ge_def)

lemma giou_f32_fails_as_exact:
  assumes "\<forall>s \<in> set spans1. f32_round (fst s) = Fin (fst s) \<and> f32_round (snd s) = Fin (snd s)"
    and "\<forall>s \<in> set spans2. f32_round (fst s) = Fin (fst s) \<and> f32_round (snd s) = Fin (snd s)"
  shows "generalized_temporal_iou_f32 spans1 spans2 = Inl AssertionError
    \<longleftrightarrow> generalized_temporal_iou spans1 spans2 = Inl AssertionError"
  by (simp add: generalized_temporal_iou_f32_def generalized_temporal_iou_def Let_def split_beta
      all_ge_f32_to_float [OF assms(1)] all_ge_f32_to_float [OF assms(2)])




section \<open>Claims that rounding decides\<close>






end
